theory Spec2Isabelle
  imports Complex_Main "HOL-Library.Char_ord" "HOL-Library.List_Lexorder" "HOL-Library.Multiset"
begin

section \<open>Values of the Python program\<close>

text \<open>
  The processors of \<^verbatim>\<open>src/app/main.py\<close> work on the decoded JSON payloads of the
  marketplace API, which are untyped Python values. A payload is a \<open>json\<close> value; an object
  is the association list of its items, read with \<open>map_of\<close>. A Python \<^verbatim>\<open>str\<close> is a
  \<open>string\<close> holding its UTF-8 bytes: equality, emptiness and the lexicographic order of
  \<^verbatim>\<open>str\<close> (by code point) are those of the byte lists, and its length is the number
  of its code points. A float carries its value as a rational.
\<close>

datatype json =
    JNull
  | JBool bool
  | JInt int
  | JFloat rat
  | JStr string
  | JArr "json list"
  | JObj "(string \<times> json) list"

text \<open>The exceptions (all subclasses of \<^verbatim>\<open>Exception\<close>) that the modelled code can meet.
  \<open>ApiError\<close> is any failure raised by the API client (transport, HTTP status, token).\<close>

datatype exn = AttributeError | TypeError | ValueError | IndexError | ApiError string

text \<open>Sequencing of computations that may raise: the first exception wins.\<close>

definition bind_exn :: "exn + 'a \<Rightarrow> ('a \<Rightarrow> exn + 'b) \<Rightarrow> exn + 'b" where
  "bind_exn m f = (case m of Inl e \<Rightarrow> Inl e | Inr x \<Rightarrow> f x)"

text \<open>Python truthiness, as used by \<^verbatim>\<open>not x\<close>, \<^verbatim>\<open>x or y\<close> and \<^verbatim>\<open>if x\<close>.\<close>

fun truthy :: "json \<Rightarrow> bool" where
  "truthy JNull = False"
| "truthy (JBool b) = b"
| "truthy (JInt i) = (i \<noteq> 0)"
| "truthy (JFloat r) = (r \<noteq> 0)"
| "truthy (JStr s) = (s \<noteq> [])"
| "truthy (JArr xs) = (xs \<noteq> [])"
| "truthy (JObj kvs) = (kvs \<noteq> [])"

text \<open>\<^verbatim>\<open>d.get(key, default)\<close>: only a dict has the method.\<close>

fun py_get :: "json \<Rightarrow> string \<Rightarrow> json \<Rightarrow> exn + json" where
  "py_get (JObj kvs) k d = Inr (case map_of kvs k of None \<Rightarrow> d | Some v \<Rightarrow> v)"
| "py_get _ k d = Inl AttributeError"

text \<open>The code points of a \<^verbatim>\<open>str\<close>, each with its UTF-8 bytes: a byte from 128 to 191
  continues the code point begun before it.\<close>

definition is_continuation :: "char \<Rightarrow> bool" where
  "is_continuation ch = (128 \<le> (of_char ch :: nat) \<and> (of_char ch :: nat) < 192)"

fun code_points :: "string \<Rightarrow> string list" where
  "code_points [] = []"
| "code_points [ch] = [[ch]]"
| "code_points (ch # ch' # s) =
     (if is_continuation ch'
      then (case code_points (ch' # s) of [] \<Rightarrow> [[ch]] | g # gs \<Rightarrow> (ch # g) # gs)
      else [ch] # code_points (ch' # s))"

text \<open>\<^verbatim>\<open>len(x)\<close> and iteration \<^verbatim>\<open>for y in x\<close> over a decoded JSON value; a \<^verbatim>\<open>str\<close> is
  counted and iterated by code points, a dict by its keys.\<close>

fun py_len :: "json \<Rightarrow> exn + nat" where
  "py_len (JArr xs) = Inr (length xs)"
| "py_len (JStr s) = Inr (length (code_points s))"
| "py_len (JObj kvs) = Inr (length (remdups (map fst kvs)))"
| "py_len _ = Inl TypeError"

fun py_iter :: "json \<Rightarrow> exn + json list" where
  "py_iter (JArr xs) = Inr xs"
| "py_iter (JStr s) = Inr (map JStr (code_points s))"
| "py_iter (JObj kvs) = Inr (map JStr (remdups (map fst kvs)))"
| "py_iter _ = Inl TypeError"

text \<open>\<^verbatim>\<open>xs[-1]\<close> on a list.\<close>

definition py_last :: "json list \<Rightarrow> exn + json" where
  "py_last xs = (if xs = [] then Inl IndexError else Inr (last xs))"

section \<open>Dates\<close>

text \<open>
  A \<^verbatim>\<open>datetime\<close> is either timezone-aware, given by its instant in microseconds since the
  epoch, or naive, given by its wall-clock microseconds. A \<^verbatim>\<open>timedelta\<close> is a number of
  microseconds. Subtracting a naive from an aware datetime (or the converse) raises
  \<^verbatim>\<open>TypeError\<close>.
\<close>

datatype datetime = Aware int | Naive int

fun datetime_sub :: "datetime \<Rightarrow> datetime \<Rightarrow> exn + int" where
  "datetime_sub (Aware a) (Aware b) = Inr (a - b)"
| "datetime_sub (Naive a) (Naive b) = Inr (a - b)"
| "datetime_sub _ _ = Inl TypeError"

definition timedelta_minutes :: "int \<Rightarrow> int" where
  "timedelta_minutes m = m * 60000000"

section \<open>Configuration (\<^verbatim>\<open>src/app/config.py\<close>)\<close>

record settings =
  client_id :: string
  client_secret :: string
  refresh_token :: string
  environment :: string
  poll_interval_seconds :: int
  max_threads_per_poll :: int
  max_issues_per_poll :: int
  tz :: string
  work_hours_start :: int
  work_hours_end :: int
  autoresponse_message :: string
  autoresponse_issue :: string
  reply_outside_working_hours :: bool
  reply_only_first_message :: bool
  process_issues_flag :: bool

section \<open>The decision engine (\<^verbatim>\<open>src/app/rules.py\<close>)\<close>

record decision =
  should_reply :: bool
  message :: "string option"
  reason :: string

definition Decision :: "bool \<Rightarrow> string option \<Rightarrow> string \<Rightarrow> decision" where
  "Decision sr msg rsn = \<lparr>should_reply = sr, message = msg, reason = rsn\<rparr>"

text \<open>\<^verbatim>\<open>decide_autoreply\<close>, lines 23 to 35. \<^verbatim>\<open>is_working_time\<close> (lines 18 to 20) is
  defined in the module but called nowhere, so it has no part in the model.\<close>

definition decide_autoreply :: "datetime \<Rightarrow> datetime \<Rightarrow> settings \<Rightarrow> bool \<Rightarrow> exn + decision" where
  "decide_autoreply now msg_time st is_issue =
     bind_exn (datetime_sub now msg_time) (\<lambda>age.
       if age > timedelta_minutes 10 then Inr (Decision False None ''message too old'')
       else if is_issue then Inr (Decision True (Some (autoresponse_issue st)) ''issue'')
       else Inr (Decision True (Some (autoresponse_message st)) ''ask message''))"

section \<open>The environment of the processors\<close>

text \<open>
  The processors talk to the API client of \<^verbatim>\<open>src/app/allegro.py\<close>, read the clock and
  use two functions of the Python library. All of them are fields of an environment over a
  world \<open>'w\<close> (the remote state and the time), so that every result below holds for every
  behaviour of the marketplace:
  \<^item> the six client methods return the decoded payload or raise;
  \<^item> \<open>utcnow\<close> is \<^verbatim>\<open>datetime.now(timezone.utc)\<close>, an aware datetime given by its instant;
  \<^item> \<open>sleep\<close> is \<^verbatim>\<open>asyncio.sleep\<close>;
  \<^item> \<open>fromisoformat\<close> is \<^verbatim>\<open>datetime.fromisoformat\<close> on a \<^verbatim>\<open>str\<close>, \<open>None\<close> standing
    for its \<^verbatim>\<open>ValueError\<close>;
  \<^item> \<open>sort_other\<close> is \<^verbatim>\<open>list.sort\<close> on two or more items whose keys (first argument) are
    not all of type \<^verbatim>\<open>str\<close>: what it returns or raises depends on how the interpreter
    compares values of mixed types, and is left open.
  Every processor returns its outcome, the client calls it made, in order, and the new world.
\<close>

datatype call =
    ListThreads int int
  | ListMessages json
  | PostMessage json string
  | ListIssues int int
  | ListIssueMessages json
  | PostIssueMessage json string
  | Sleep int

record 'w env =
  list_threads :: "int \<Rightarrow> int \<Rightarrow> 'w \<Rightarrow> (exn + json) \<times> 'w"
  list_messages :: "json \<Rightarrow> 'w \<Rightarrow> (exn + json) \<times> 'w"
  post_message :: "json \<Rightarrow> string \<Rightarrow> 'w \<Rightarrow> (exn + json) \<times> 'w"
  list_issues :: "int \<Rightarrow> int \<Rightarrow> 'w \<Rightarrow> (exn + json) \<times> 'w"
  list_issue_messages :: "json \<Rightarrow> 'w \<Rightarrow> (exn + json) \<times> 'w"
  post_issue_message :: "json \<Rightarrow> string \<Rightarrow> 'w \<Rightarrow> (exn + json) \<times> 'w"
  utcnow :: "'w \<Rightarrow> int \<times> 'w"
  sleep :: "int \<Rightarrow> 'w \<Rightarrow> 'w"
  fromisoformat :: "string \<Rightarrow> datetime option"
  sort_other :: "json list \<Rightarrow> json list \<Rightarrow> exn + json list"

section \<open>Timestamps (\<^verbatim>\<open>src/app/main.py\<close>, lines 15 to 22)\<close>

text \<open>\<^verbatim>\<open>timestamp_str.replace("Z", "+00:00")\<close>: every \<^verbatim>\<open>Z\<close> is replaced; a value that is
  not a \<^verbatim>\<open>str\<close> has no such method.\<close>

fun replace_Z :: "json \<Rightarrow> exn + string" where
  "replace_Z (JStr s) = Inr (concat (map (\<lambda>ch. if ch = CHR ''Z'' then ''+00:00'' else [ch]) s))"
| "replace_Z _ = Inl AttributeError"

definition parse_timestamp :: "'w env \<Rightarrow> json \<Rightarrow> datetime \<Rightarrow> exn + datetime" where
  "parse_timestamp c timestamp_str fallback =
     (if \<not> truthy timestamp_str then Inr fallback
      else
        case bind_exn (replace_Z timestamp_str)
               (\<lambda>s. case fromisoformat c s of None \<Rightarrow> Inl ValueError | Some d \<Rightarrow> Inr d) of
          Inr d \<Rightarrow> Inr d
        | Inl e \<Rightarrow> if e = ValueError \<or> e = AttributeError then Inr fallback else Inl e)"

section \<open>Sorting the messages (lines 89 to 93 and 175 to 184)\<close>

text \<open>The sort key \<^verbatim>\<open>_ts\<close>.\<close>

definition ts :: "json \<Rightarrow> exn + json" where
  "ts m =
     bind_exn (py_get m ''createdAt'' JNull) (\<lambda>a. if truthy a then Inr a else
     bind_exn (py_get m ''created'' JNull) (\<lambda>b. if truthy b then Inr b else
     bind_exn (py_get m ''creationDate'' JNull) (\<lambda>d. if truthy d then Inr d else
     Inr (JStr []))))"

fun map_exn :: "('a \<Rightarrow> exn + 'b) \<Rightarrow> 'a list \<Rightarrow> exn + 'b list" where
  "map_exn f [] = Inr []"
| "map_exn f (x # xs) = bind_exn (f x) (\<lambda>y. bind_exn (map_exn f xs) (\<lambda>ys. Inr (y # ys)))"

fun is_JStr :: "json \<Rightarrow> bool" where
  "is_JStr (JStr s) = True"
| "is_JStr _ = False"

definition ts_key :: "json \<Rightarrow> string" where
  "ts_key m = (case ts m of Inr (JStr s) \<Rightarrow> s | _ \<Rightarrow> [])"

text \<open>
  \<^verbatim>\<open>messages.sort(key=_ts)\<close>: only a list has the method; the keys of all items are
  computed first; a list of at most one item is left as it is; \<^verbatim>\<open>str\<close> keys are sorted
  by the stable sort, in ascending order.
\<close>

definition sort_messages :: "'w env \<Rightarrow> json \<Rightarrow> exn + json list" where
  "sort_messages c messages =
     (case messages of
        JArr ms \<Rightarrow>
          bind_exn (map_exn ts ms) (\<lambda>keys.
            if length ms \<le> 1 then Inr ms
            else if list_all is_JStr keys then Inr (sort_key ts_key ms)
            else sort_other c keys ms)
      | _ \<Rightarrow> Inl AttributeError)"

section \<open>The thread processor (lines 64 to 133)\<close>

text \<open>\<^verbatim>\<open>p.get(k1, []) or p.get(k2, []) or []\<close> and \<^verbatim>\<open>p.get(k, []) or []\<close>.\<close>

definition get_or2 :: "json \<Rightarrow> string \<Rightarrow> string \<Rightarrow> exn + json" where
  "get_or2 p k1 k2 =
     bind_exn (py_get p k1 (JArr [])) (\<lambda>a. if truthy a then Inr a else
     bind_exn (py_get p k2 (JArr [])) (\<lambda>b. if truthy b then Inr b else Inr (JArr [])))"

definition get_or1 :: "json \<Rightarrow> string \<Rightarrow> exn + json" where
  "get_or1 p k = bind_exn (py_get p k (JArr [])) (\<lambda>a. if truthy a then Inr a else Inr (JArr []))"

text \<open>Line 76.\<close>

definition thread_id_of :: "json \<Rightarrow> exn + json" where
  "thread_id_of th =
     bind_exn (py_get th ''id'' JNull) (\<lambda>a. if truthy a then Inr a else
     bind_exn (py_get th ''thread'' (JObj [])) (\<lambda>t. py_get t ''id'' JNull))"

text \<open>Lines 98 to 102.\<close>

definition is_from_interlocutor :: "json \<Rightarrow> exn + json" where
  "is_from_interlocutor last_message =
     bind_exn (py_get last_message ''author'' (JObj [])) (\<lambda>author.
       py_get author ''isInterlocutor'' (JBool False))"

definition is_ask_type :: "json \<Rightarrow> exn + bool" where
  "is_ask_type last_message =
     bind_exn (py_get last_message ''type'' (JStr [])) (\<lambda>t. Inr (t = JStr ''ASK_QUESTION''))"

text \<open>Lines 98 to 120: from the last message to the decision; \<open>None\<close> is \<^verbatim>\<open>continue\<close>.\<close>

definition thread_last :: "'w env \<Rightarrow> settings \<Rightarrow> datetime \<Rightarrow> json \<Rightarrow> exn + decision option" where
  "thread_last c st now last_message =
     bind_exn (is_from_interlocutor last_message) (\<lambda>flag.
     bind_exn (is_ask_type last_message) (\<lambda>ask.
       if \<not> truthy flag then Inr None
       else if \<not> ask then Inr None
       else
         bind_exn (py_get last_message ''createdAt'' JNull) (\<lambda>created.
         bind_exn (parse_timestamp c created now) (\<lambda>msg_time.
         bind_exn (decide_autoreply now msg_time st False) (\<lambda>d. Inr (Some d))))))"

text \<open>Lines 82 to 120: from the fetched payload to the decision.\<close>

definition thread_decide :: "'w env \<Rightarrow> settings \<Rightarrow> datetime \<Rightarrow> json \<Rightarrow> exn + decision option" where
  "thread_decide c st now msgs_payload =
     bind_exn (get_or2 msgs_payload ''messages'' ''items'') (\<lambda>messages.
       if \<not> truthy messages then Inr None
       else
         bind_exn (sort_messages c messages) (\<lambda>sorted.
         bind_exn (py_last sorted) (\<lambda>last_message.
           thread_last c st now last_message)))"

text \<open>The guard \<^verbatim>\<open>decision.should_reply and decision.message\<close> (lines 128 and 209): the
  text to post, if any.\<close>

definition reply_text :: "decision \<Rightarrow> string option" where
  "reply_text d =
     (if should_reply d then
        (case message d of None \<Rightarrow> None | Some t \<Rightarrow> if t \<noteq> [] then Some t else None)
      else None)"

text \<open>The body of the loop over the threads (lines 75 to 133). The \<^verbatim>\<open>try\<close> encloses
  \<^verbatim>\<open>post_message\<close> only: its failure is printed and dropped.\<close>

definition process_thread ::
  "'w env \<Rightarrow> settings \<Rightarrow> json \<Rightarrow> 'w \<Rightarrow> (exn + unit) \<times> call list \<times> 'w" where
  "process_thread c st th w =
     (case utcnow c w of (n, w1) \<Rightarrow>
       (case thread_id_of th of
          Inl e \<Rightarrow> (Inl e, [], w1)
        | Inr thread_id \<Rightarrow>
            if \<not> truthy thread_id then (Inr (), [], w1)
            else
              (case list_messages c thread_id w1 of (r, w2) \<Rightarrow>
                (case bind_exn r (thread_decide c st (Aware n)) of
                   Inl e \<Rightarrow> (Inl e, [ListMessages thread_id], w2)
                 | Inr None \<Rightarrow> (Inr (), [ListMessages thread_id], w2)
                 | Inr (Some d) \<Rightarrow>
                     (case reply_text d of
                        None \<Rightarrow> (Inr (), [ListMessages thread_id], w2)
                      | Some text \<Rightarrow>
                          (case post_message c thread_id text w2 of (p, w3) \<Rightarrow>
                            (Inr (), [ListMessages thread_id, PostMessage thread_id text], w3)))))))"

text \<open>The loop: an exception that leaves the body leaves the loop.\<close>

fun threads_loop ::
  "'w env \<Rightarrow> settings \<Rightarrow> json list \<Rightarrow> 'w \<Rightarrow> (exn + unit) \<times> call list \<times> 'w" where
  "threads_loop c st [] w = (Inr (), [], w)"
| "threads_loop c st (th # ths) w =
     (case process_thread c st th w of
        (Inl e, cs, w1) \<Rightarrow> (Inl e, cs, w1)
      | (Inr u, cs, w1) \<Rightarrow>
          case threads_loop c st ths w1 of (r, cs', w2) \<Rightarrow> (r, cs @ cs', w2))"

text \<open>\<^verbatim>\<open>process_threads\<close>; its parameter \<^verbatim>\<open>now\<close> is overwritten in the loop before any
  use.\<close>

definition process_threads ::
  "'w env \<Rightarrow> settings \<Rightarrow> datetime \<Rightarrow> 'w \<Rightarrow> (exn + unit) \<times> call list \<times> 'w" where
  "process_threads c st now w =
     (case list_threads c (max_threads_per_poll st) 0 w of (r, w1) \<Rightarrow>
       (case bind_exn r (\<lambda>threads_payload.
               bind_exn (get_or2 threads_payload ''threads'' ''items'') (\<lambda>threads.
               bind_exn (py_len threads) (\<lambda>n. py_iter threads))) of
          Inl e \<Rightarrow> (Inl e, [ListThreads (max_threads_per_poll st) 0], w1)
        | Inr ths \<Rightarrow>
            (case threads_loop c st ths w1 of (r', cs, w2) \<Rightarrow>
              (r', ListThreads (max_threads_per_poll st) 0 # cs, w2))))"

section \<open>The issue processor (lines 136 to 217)\<close>

text \<open>Lines 152 and 153.\<close>

definition issue_status :: "json \<Rightarrow> exn + json" where
  "issue_status issue =
     bind_exn (py_get issue ''currentState'' JNull) (\<lambda>current_state.
       if truthy current_state then py_get current_state ''status'' JNull else Inr JNull)"

text \<open>Lines 146 to 156, outside the \<^verbatim>\<open>try\<close>: the identifier of an issue that passes.\<close>

definition issue_gate :: "json \<Rightarrow> exn + json option" where
  "issue_gate issue =
     bind_exn (py_get issue ''id'' JNull) (\<lambda>issue_id.
       if \<not> truthy issue_id then Inr None
       else
         bind_exn (issue_status issue) (\<lambda>status.
           if status \<noteq> JStr ''DISPUTE_ONGOING'' then Inr None else Inr (Some issue_id)))"

text \<open>Line 188.\<close>

definition author_role :: "json \<Rightarrow> exn + json" where
  "author_role last_message =
     bind_exn (py_get last_message ''author'' (JObj [])) (\<lambda>author. py_get author ''role'' JNull)"

text \<open>Lines 188 to 201.\<close>

definition issue_last :: "'w env \<Rightarrow> settings \<Rightarrow> datetime \<Rightarrow> json \<Rightarrow> exn + decision option" where
  "issue_last c st now last_message =
     bind_exn (author_role last_message) (\<lambda>role.
       if role \<noteq> JStr ''BUYER'' then Inr None
       else
         bind_exn (py_get last_message ''createdAt'' JNull) (\<lambda>created.
         bind_exn (parse_timestamp c created now) (\<lambda>msg_time.
         bind_exn (decide_autoreply now msg_time st True) (\<lambda>d. Inr (Some d)))))"

text \<open>Lines 162 to 201.\<close>

definition issue_decide :: "'w env \<Rightarrow> settings \<Rightarrow> datetime \<Rightarrow> json \<Rightarrow> exn + decision option" where
  "issue_decide c st now msgs_payload =
     bind_exn (get_or1 msgs_payload ''chat'') (\<lambda>messages.
       if \<not> truthy messages then Inr None
       else
         bind_exn (py_len messages) (\<lambda>n.
           if n > 2 then Inr None
           else
             bind_exn (sort_messages c messages) (\<lambda>sorted.
             bind_exn (py_last sorted) (\<lambda>last_message.
               issue_last c st now last_message))))"

text \<open>The body of the loop over the issues (lines 145 to 217). The outer \<^verbatim>\<open>try\<close> starts at
  the fetch of the chat: what is raised from there on is printed and dropped.\<close>

definition process_issue ::
  "'w env \<Rightarrow> settings \<Rightarrow> json \<Rightarrow> 'w \<Rightarrow> (exn + unit) \<times> call list \<times> 'w" where
  "process_issue c st issue w =
     (case utcnow c w of (n, w1) \<Rightarrow>
       (case issue_gate issue of
          Inl e \<Rightarrow> (Inl e, [], w1)
        | Inr None \<Rightarrow> (Inr (), [], w1)
        | Inr (Some issue_id) \<Rightarrow>
            (case list_issue_messages c issue_id w1 of (r, w2) \<Rightarrow>
              (case bind_exn r (issue_decide c st (Aware n)) of
                 Inl e \<Rightarrow> (Inr (), [ListIssueMessages issue_id], w2)
               | Inr None \<Rightarrow> (Inr (), [ListIssueMessages issue_id], w2)
               | Inr (Some d) \<Rightarrow>
                   (case reply_text d of
                      None \<Rightarrow> (Inr (), [ListIssueMessages issue_id], w2)
                    | Some text \<Rightarrow>
                        (case post_issue_message c issue_id text w2 of (p, w3) \<Rightarrow>
                          (Inr (), [ListIssueMessages issue_id, PostIssueMessage issue_id text],
                           w3)))))))"

fun issues_loop ::
  "'w env \<Rightarrow> settings \<Rightarrow> json list \<Rightarrow> 'w \<Rightarrow> (exn + unit) \<times> call list \<times> 'w" where
  "issues_loop c st [] w = (Inr (), [], w)"
| "issues_loop c st (issue # issues) w =
     (case process_issue c st issue w of
        (Inl e, cs, w1) \<Rightarrow> (Inl e, cs, w1)
      | (Inr u, cs, w1) \<Rightarrow>
          case issues_loop c st issues w1 of (r, cs', w2) \<Rightarrow> (r, cs @ cs', w2))"

definition process_issues ::
  "'w env \<Rightarrow> settings \<Rightarrow> datetime \<Rightarrow> 'w \<Rightarrow> (exn + unit) \<times> call list \<times> 'w" where
  "process_issues c st now w =
     (case list_issues c (max_issues_per_poll st) 0 w of (r, w1) \<Rightarrow>
       (case bind_exn r (\<lambda>issues_payload.
               bind_exn (get_or1 issues_payload ''issues'') (\<lambda>issues.
               bind_exn (py_len issues) (\<lambda>n. py_iter issues))) of
          Inl e \<Rightarrow> (Inl e, [ListIssues (max_issues_per_poll st) 0], w1)
        | Inr iss \<Rightarrow>
            (case issues_loop c st iss w1 of (r', cs, w2) \<Rightarrow>
              (r', ListIssues (max_issues_per_poll st) 0 # cs, w2))))"

section \<open>The poll scheduler (lines 42 to 61)\<close>

definition process_once :: "'w env \<Rightarrow> settings \<Rightarrow> 'w \<Rightarrow> (exn + unit) \<times> call list \<times> 'w" where
  "process_once c st w =
     (case utcnow c w of (n, w0) \<Rightarrow>
       (case process_threads c st (Aware n) w0 of
          (Inl e, cs, w1) \<Rightarrow> (Inl e, cs, w1)
        | (Inr u, cs, w1) \<Rightarrow>
            if process_issues_flag st then
              (case process_issues c st (Aware n) w1 of (r, cs', w2) \<Rightarrow> (r, cs @ cs', w2))
            else (Inr (), cs, w1)))"

text \<open>One turn of \<^verbatim>\<open>while True\<close>: the cycle inside \<^verbatim>\<open>try\<close>, whose exception is printed
  and dropped, then the sleep.\<close>

definition poll_iteration :: "'w env \<Rightarrow> settings \<Rightarrow> 'w \<Rightarrow> (exn + unit) \<times> call list \<times> 'w" where
  "poll_iteration c st w =
     (case process_once c st w of (r, cs, w1) \<Rightarrow>
        (Inr (), cs @ [Sleep (poll_interval_seconds st)], sleep c (poll_interval_seconds st) w1))"

text \<open>The loop never returns; \<open>poll_loop k\<close> runs its first \<open>k\<close> turns and answers \<open>None\<close>
  when the loop is still running after them, \<open>Some e\<close> when an exception has ended it.\<close>

fun poll_loop ::
  "nat \<Rightarrow> 'w env \<Rightarrow> settings \<Rightarrow> 'w \<Rightarrow> exn option \<times> call list \<times> 'w" where
  "poll_loop 0 c st w = (None, [], w)"
| "poll_loop (Suc k) c st w =
     (case poll_iteration c st w of
        (Inl e, cs, w1) \<Rightarrow> (Some e, cs, w1)
      | (Inr u, cs, w1) \<Rightarrow>
          case poll_loop k c st w1 of (r, cs', w2) \<Rightarrow> (r, cs @ cs', w2))"

section \<open>Concrete inputs\<close>

text \<open>The settings used in the examples: the defaults of \<^verbatim>\<open>config.py\<close>, with templates in
  plain ASCII.\<close>

definition demo_settings :: settings where
  "demo_settings =
     \<lparr>client_id = ''id'', client_secret = ''secret'', refresh_token = ''token'',
      environment = ''production'', poll_interval_seconds = 60,
      max_threads_per_poll = 5, max_issues_per_poll = 5,
      tz = ''Europe/Warsaw'', work_hours_start = 9, work_hours_end = 17,
      autoresponse_message = ''Thank you for your message.'',
      autoresponse_issue = ''Thank you for reporting the problem.'',
      reply_outside_working_hours = True, reply_only_first_message = True,
      process_issues_flag = True\<rparr>"

text \<open>The instant 2024-01-01T12:05:00Z, in microseconds.\<close>

definition demo_now :: int where
  "demo_now = 1704110700000000"

text \<open>A parser that knows the four timestamps of the examples (the last one is naive).\<close>

definition demo_fromisoformat :: "string \<Rightarrow> datetime option" where
  "demo_fromisoformat s =
     map_of
       [(''2024-01-01T12:00:00+00:00'', Aware 1704110400000000),
        (''2024-01-01T11:55:00+00:00'', Aware 1704110100000000),
        (''2024-01-01T11:50:00+00:00'', Aware 1704109800000000),
        (''2024-01-01T12:00:00'', Naive 1704110400000000)] s"

text \<open>
  A marketplace that answers from fixed tables: the world is the clock, read by \<open>utcnow\<close>
  and advanced by \<open>sleep\<close> only.
\<close>

definition demo_env ::
  "(exn + json) \<Rightarrow> (json \<Rightarrow> exn + json) \<Rightarrow> (json \<Rightarrow> exn + json) \<Rightarrow>
   (exn + json) \<Rightarrow> (json \<Rightarrow> exn + json) \<Rightarrow> (json \<Rightarrow> exn + json) \<Rightarrow> int env" where
  "demo_env threads msgs post issues chat post_issue =
     \<lparr>list_threads = (\<lambda>limit offset w. (threads, w)),
      list_messages = (\<lambda>thread_id w. (msgs thread_id, w)),
      post_message = (\<lambda>thread_id text w. (post thread_id, w)),
      list_issues = (\<lambda>limit offset w. (issues, w)),
      list_issue_messages = (\<lambda>issue_id w. (chat issue_id, w)),
      post_issue_message = (\<lambda>issue_id text w. (post_issue issue_id, w)),
      utcnow = (\<lambda>w. (w, w)),
      sleep = (\<lambda>seconds w. w + seconds * 1000000),
      fromisoformat = demo_fromisoformat,
      sort_other = (\<lambda>keys ms. Inl TypeError)\<rparr>"

text \<open>A message of a thread and a message of an issue chat.\<close>

definition thread_msg :: "string \<Rightarrow> bool \<Rightarrow> string \<Rightarrow> json" where
  "thread_msg created interlocutor type =
     JObj [(''createdAt'', JStr created),
           (''author'', JObj [(''isInterlocutor'', JBool interlocutor)]),
           (''type'', JStr type)]"

definition chat_msg :: "string \<Rightarrow> string \<Rightarrow> json" where
  "chat_msg created role =
     JObj [(''createdAt'', JStr created), (''author'', JObj [(''role'', JStr role)])]"

definition ok :: "json \<Rightarrow> exn + json" where
  "ok x = Inr (JObj [])"

text \<open>Two threads \<open>t1\<close> and \<open>t2\<close>, each with one recent question of the buyer, and one
  ongoing dispute \<open>i1\<close> whose chat holds two messages, the last one of the buyer.\<close>

definition demo_threads :: json where
  "demo_threads = JObj [(''threads'', JArr [JObj [(''id'', JStr ''t1'')], JObj [(''id'', JStr ''t2'')]])]"

definition demo_messages :: "json \<Rightarrow> exn + json" where
  "demo_messages thread_id =
     Inr (JObj [(''messages'',
            JArr [thread_msg ''2024-01-01T12:00:00Z'' True ''ASK_QUESTION'',
                  thread_msg ''2024-01-01T11:55:00Z'' False ''ASK_QUESTION''])])"

definition demo_issues :: json where
  "demo_issues =
     JObj [(''issues'',
        JArr [JObj [(''id'', JStr ''i1''), (''currentState'', JObj [(''status'', JStr ''DISPUTE_ONGOING'')])]])]"

definition demo_chat :: "json \<Rightarrow> exn + json" where
  "demo_chat issue_id =
     Inr (JObj [(''chat'',
            JArr [chat_msg ''2024-01-01T12:00:00Z'' ''BUYER'',
                  chat_msg ''2024-01-01T11:55:00Z'' ''SELLER''])])"

definition demo_market :: "int env" where
  "demo_market = demo_env (Inr demo_threads) demo_messages ok (Inr demo_issues) demo_chat ok"

text \<open>A thread whose most recent message is the seller's own answer.\<close>

definition seller_messages :: "json \<Rightarrow> exn + json" where
  "seller_messages thread_id =
     Inr (JObj [(''messages'',
            JArr [thread_msg ''2024-01-01T12:00:00Z'' False ''ASK_QUESTION'',
                  thread_msg ''2024-01-01T11:55:00Z'' True ''ASK_QUESTION''])])"

definition seller_market :: "int env" where
  "seller_market = demo_env (Inr demo_threads) seller_messages ok (Inr demo_issues) demo_chat ok"

text \<open>An issue with a given status, and a chat of three messages.\<close>

definition demo_issue :: "string \<Rightarrow> json" where
  "demo_issue status =
     JObj [(''id'', JStr ''i1''), (''currentState'', JObj [(''status'', JStr status)])]"

definition long_chat :: "json \<Rightarrow> exn + json" where
  "long_chat issue_id =
     Inr (JObj [(''chat'',
            JArr [chat_msg ''2024-01-01T11:50:00Z'' ''BUYER'',
                  chat_msg ''2024-01-01T11:55:00Z'' ''SELLER'',
                  chat_msg ''2024-01-01T12:00:00Z'' ''BUYER''])])"

definition long_chat_market :: "int env" where
  "long_chat_market = demo_env (Inr demo_threads) demo_messages ok (Inr demo_issues) long_chat ok"

text \<open>The settings when \<^verbatim>\<open>TEMPLATE_FIRST_CONTACT\<close> is set to the empty string, and a
  thread with a single recent question.\<close>

definition empty_template_settings :: settings where
  "empty_template_settings = demo_settings\<lparr>autoresponse_message := []\<rparr>"

definition single_question :: "json \<Rightarrow> exn + json" where
  "single_question thread_id =
     Inr (JObj [(''messages'', JArr [thread_msg ''2024-01-01T12:00:00Z'' True ''ASK_QUESTION''])])"

definition single_question_market :: "int env" where
  "single_question_market =
     demo_env (Inr demo_threads) single_question ok (Inr demo_issues) demo_chat ok"

text \<open>A marketplace that fails to list the messages of \<open>t1\<close>, and one that fails to accept
  the reply to \<open>t1\<close>.\<close>

definition failing_messages :: "json \<Rightarrow> exn + json" where
  "failing_messages thread_id =
     (if thread_id = JStr ''t1'' then Inl (ApiError ''HTTP 500'') else demo_messages thread_id)"

definition failing_market :: "int env" where
  "failing_market = demo_env (Inr demo_threads) failing_messages ok (Inr demo_issues) demo_chat ok"

definition failing_post :: "json \<Rightarrow> exn + json" where
  "failing_post thread_id =
     (if thread_id = JStr ''t1'' then Inl (ApiError ''HTTP 500'') else Inr (JObj []))"

definition failing_post_market :: "int env" where
  "failing_post_market =
     demo_env (Inr demo_threads) demo_messages failing_post (Inr demo_issues) demo_chat ok"

text \<open>A question of the buyer, four years old, whose time is under \<^verbatim>\<open>created\<close>.\<close>

definition old_question :: "(string \<times> json) list" where
  "old_question =
     [(''created'', JStr ''2020-01-01T00:00:00Z''),
      (''author'', JObj [(''isInterlocutor'', JBool True), (''role'', JStr ''BUYER'')]),
      (''type'', JStr ''ASK_QUESTION'')]"

text \<open>A thread whose only message is a recent question with a \<^verbatim>\<open>createdAt\<close> that carries
  no offset.\<close>

definition naive_question :: "json \<Rightarrow> exn + json" where
  "naive_question thread_id =
     Inr (JObj [(''messages'', JArr [thread_msg ''2024-01-01T12:00:00'' True ''ASK_QUESTION''])])"

definition naive_question_market :: "int env" where
  "naive_question_market =
     demo_env (Inr demo_threads) naive_question ok (Inr demo_issues) demo_chat ok"

text \<open>A conversation fetched with that old question first and an older answer of the seller
  second, as the messages of every thread and as the chat of every issue.\<close>

definition old_messages :: "json list" where
  "old_messages = [JObj old_question, chat_msg ''2019-12-31T00:00:00Z'' ''SELLER'']"

definition old_thread_payload :: "json \<Rightarrow> exn + json" where
  "old_thread_payload thread_id = Inr (JObj [(''messages'', JArr old_messages)])"

definition old_chat_payload :: "json \<Rightarrow> exn + json" where
  "old_chat_payload issue_id = Inr (JObj [(''chat'', JArr old_messages)])"

definition old_market :: "int env" where
  "old_market =
     demo_env (Inr demo_threads) old_thread_payload ok (Inr demo_issues) old_chat_payload ok"

section \<open>Basic facts\<close>

lemma bind_exn_simps:
  "bind_exn (Inl e) f = Inl e"
  "bind_exn (Inr x) f = f x"
  by (simp_all add: bind_exn_def)

lemma bind_exn_Inr_iff:
  "bind_exn m f = Inr y \<longleftrightarrow> (\<exists>x. m = Inr x \<and> f x = Inr y)"
  by (cases m) (simp_all add: bind_exn_def)

section \<open>The decision engine\<close>

text \<open>A naive and an aware datetime cannot be subtracted: the engine raises.\<close>

lemma decide_autoreply_mixed:
  "decide_autoreply (Aware a) (Naive b) st is_issue = Inl TypeError"
  "decide_autoreply (Naive a) (Aware b) st is_issue = Inl TypeError"
  by (simp_all add: decide_autoreply_def bind_exn_simps)

text \<open>A \<^verbatim>\<open>createdAt\<close> without offset parses to a naive datetime; against the aware \<open>now\<close> the
  engine raises instead of returning a decision, and the exception leaves the processing
  of the thread.\<close>

theorem naive_msg_time_counterexample:
  "parse_timestamp naive_question_market (JStr ''2024-01-01T12:00:00'') (Aware demo_now)
     = Inr (Naive 1704110400000000)
   \<and> decide_autoreply (Aware demo_now) (Naive 1704110400000000) demo_settings False
     = Inl TypeError
   \<and> process_thread naive_question_market demo_settings (JObj [(''id'', JStr ''t1'')]) demo_now
     = (Inl TypeError, [ListMessages (JStr ''t1'')], demo_now)"
  by code_simp

text \<open>
  Claim C1, amended. For every \<open>now\<close> and \<open>msg_time\<close> whose difference is defined (both
  timezone-aware, or both naive), \<^verbatim>\<open>decide_autoreply\<close> answers \<open>should_reply = False\<close>,
  with no message and the reason \<^verbatim>\<open>message too old\<close>, when the age \<open>now - msg_time\<close>
  exceeds ten minutes, whatever the category and the settings; otherwise it answers
  \<open>should_reply = True\<close> with the issue template for an issue and the first-contact
  template for a question. Ten minutes are 600000000 microseconds, and a message exactly
  that old is answered.
\<close>

theorem decide_autoreply_cutoff:
  assumes "datetime_sub now msg_time = Inr age"
  shows "decide_autoreply now msg_time st is_issue =
           Inr (if age > timedelta_minutes 10
                then \<lparr>should_reply = False, message = None, reason = ''message too old''\<rparr>
                else if is_issue
                then \<lparr>should_reply = True, message = Some (autoresponse_issue st),
                      reason = ''issue''\<rparr>
                else \<lparr>should_reply = True, message = Some (autoresponse_message st),
                      reason = ''ask message''\<rparr>)
         \<and> timedelta_minutes 10 = 600000000"
  using assms by (simp add: decide_autoreply_def bind_exn_simps Decision_def timedelta_minutes_def)

theorem decide_autoreply_cutoff_witness:
  "datetime_sub (Aware demo_now) (Aware (demo_now - 600000000)) = Inr 600000000
   \<and> decide_autoreply (Aware demo_now) (Aware (demo_now - 600000000)) demo_settings False =
       Inr \<lparr>should_reply = True, message = Some ''Thank you for your message.'',
            reason = ''ask message''\<rparr>
   \<and> decide_autoreply (Aware demo_now) (Aware (demo_now - 600000000)) demo_settings True =
       Inr \<lparr>should_reply = True, message = Some ''Thank you for reporting the problem.'',
            reason = ''issue''\<rparr>
   \<and> datetime_sub (Aware demo_now) (Aware (demo_now - 600000001)) = Inr 600000001
   \<and> decide_autoreply (Aware demo_now) (Aware (demo_now - 600000001)) demo_settings True =
       Inr \<lparr>should_reply = False, message = None, reason = ''message too old''\<rparr>"
proof -
  have a: "datetime_sub (Aware demo_now) (Aware (demo_now - 600000000)) = Inr 600000000"
    by simp
  have b: "datetime_sub (Aware demo_now) (Aware (demo_now - 600000001)) = Inr 600000001"
    by simp
  show ?thesis
    using a b
      decide_autoreply_cutoff [OF a, of demo_settings False]
      decide_autoreply_cutoff [OF a, of demo_settings True]
      decide_autoreply_cutoff [OF b, of demo_settings True]
    by (simp add: demo_settings_def)
qed

text \<open>
  Claim C2. Two settings that differ only in the business timezone, the bounds of the
  working hours and the two toggles \<^verbatim>\<open>reply_outside_working_hours\<close> and
  \<^verbatim>\<open>reply_only_first_message\<close> give the same outcome of \<^verbatim>\<open>decide_autoreply\<close> for the
  same \<open>now\<close>, \<open>msg_time\<close> and category.
\<close>

theorem decide_autoreply_ignores_working_hours:
  "decide_autoreply now msg_time
     (st\<lparr>tz := z, work_hours_start := a, work_hours_end := b,
         reply_outside_working_hours := x, reply_only_first_message := y\<rparr>) is_issue
   = decide_autoreply now msg_time st is_issue"
  by (simp add: decide_autoreply_def cong: if_cong)

text \<open>More generally the outcome depends on the two templates only.\<close>

lemma decide_autoreply_templates_only:
  assumes "autoresponse_message st = autoresponse_message st'"
    and "autoresponse_issue st = autoresponse_issue st'"
  shows "decide_autoreply now msg_time st is_issue = decide_autoreply now msg_time st' is_issue"
  using assms by (simp add: decide_autoreply_def cong: if_cong)

section \<open>Eligibility of the last message\<close>

lemma thread_last_Some:
  assumes "thread_last c st now m = Inr (Some d)"
  shows "\<exists>flag. is_from_interlocutor m = Inr flag \<and> truthy flag"
    and "is_ask_type m = Inr True"
  using assms
  by (auto simp: thread_last_def bind_exn_Inr_iff split: if_splits)

lemma issue_last_Some:
  assumes "issue_last c st now m = Inr (Some d)"
  shows "author_role m = Inr (JStr ''BUYER'')"
  using assms
  by (auto simp: issue_last_def bind_exn_Inr_iff split: if_splits)

text \<open>
  Claim C3. Take a thread whose messages were fetched and sorted, and let \<open>m\<close> be the last
  of them. If the author of \<open>m\<close> is not flagged as the interlocutor (the flag is absent,
  false or any other falsy value) or the type of \<open>m\<close> is not \<^verbatim>\<open>ASK_QUESTION\<close>, then
  the processing of the thread makes no call but the fetch: nothing is posted.
\<close>

theorem thread_skipped_unless_interlocutor_question:
  assumes tid: "thread_id_of th = Inr tid" "truthy tid"
    and now: "utcnow c w = (n, w1)"
    and fetch: "list_messages c tid w1 = (Inr payload, w2)"
    and msgs: "get_or2 payload ''messages'' ''items'' = Inr msgs"
    and srt: "sort_messages c msgs = Inr sms"
    and lst: "py_last sms = Inr m"
    and bad: "(\<forall>flag. is_from_interlocutor m = Inr flag \<longrightarrow> \<not> truthy flag)
              \<or> is_ask_type m \<noteq> Inr True"
  shows "\<exists>r. process_thread c st th w = (r, [ListMessages tid], w2)"
proof -
  have "\<forall>d. thread_last c st (Aware n) m \<noteq> Inr (Some d)"
    using bad thread_last_Some [of c st "Aware n" m] by blast
  then have "\<forall>d. thread_decide c st (Aware n) payload \<noteq> Inr (Some d)"
    using msgs srt lst by (simp add: thread_decide_def bind_exn_simps)
  then show ?thesis
    using tid now fetch
    by (auto simp: process_thread_def bind_exn_simps split: sum.splits option.splits)
qed

theorem thread_skipped_witness:
  "\<exists>r. process_thread seller_market demo_settings (JObj [(''id'', JStr ''t1'')]) demo_now =
     (r, [ListMessages (JStr ''t1'')], demo_now)"
proof -
  let ?m = "thread_msg ''2024-01-01T12:00:00Z'' False ''ASK_QUESTION''"
  let ?m2 = "thread_msg ''2024-01-01T11:55:00Z'' True ''ASK_QUESTION''"
  let ?p = "JObj [(''messages'', JArr [?m, ?m2])]"
  have 1: "thread_id_of (JObj [(''id'', JStr ''t1'')]) = Inr (JStr ''t1'')"
    by (simp add: thread_id_of_def bind_exn_simps)
  have 2: "truthy (JStr ''t1'')" by simp
  have 3: "utcnow seller_market demo_now = (demo_now, demo_now)"
    by (simp add: seller_market_def demo_env_def)
  have 4: "list_messages seller_market (JStr ''t1'') demo_now = (Inr ?p, demo_now)"
    by (simp add: seller_market_def demo_env_def seller_messages_def)
  have 5: "get_or2 ?p ''messages'' ''items'' = Inr (JArr [?m, ?m2])"
    by (simp add: get_or2_def bind_exn_simps)
  have 6: "sort_messages seller_market (JArr [?m, ?m2]) = Inr [?m2, ?m]"
    by code_simp
  have 7: "py_last [?m2, ?m] = Inr ?m"
    by (simp add: py_last_def)
  have 8: "(\<forall>flag. is_from_interlocutor ?m = Inr flag \<longrightarrow> \<not> truthy flag)
           \<or> is_ask_type ?m \<noteq> Inr True"
    by (simp add: is_from_interlocutor_def thread_msg_def bind_exn_simps)
  show ?thesis
    using thread_skipped_unless_interlocutor_question [OF 1 2 3 4 5 6 7 8] .
qed

text \<open>
  Claim C4. A reply is posted to an issue only if its status is \<^verbatim>\<open>DISPUTE_ONGOING\<close>
  exactly and the author role of the last message of its sorted chat is \<^verbatim>\<open>BUYER\<close>
  exactly; an issue with another status is left without any call, so before its chat is
  fetched.
\<close>

theorem issue_reply_only_ongoing_dispute_buyer:
  assumes now: "utcnow c w = (n, w1)"
  shows "(issue_status issue \<noteq> Inr (JStr ''DISPUTE_ONGOING'') \<longrightarrow>
            (\<exists>r. process_issue c st issue w = (r, [], w1)))
       \<and> (PostIssueMessage i t \<in> set (fst (snd (process_issue c st issue w))) \<longrightarrow>
            issue_status issue = Inr (JStr ''DISPUTE_ONGOING'')
            \<and> (\<exists>payload msgs sms m.
                  fst (list_issue_messages c i w1) = Inr payload
                  \<and> get_or1 payload ''chat'' = Inr msgs
                  \<and> sort_messages c msgs = Inr sms
                  \<and> py_last sms = Inr m
                  \<and> author_role m = Inr (JStr ''BUYER'')))"
proof (intro conjI impI)
  assume "issue_status issue \<noteq> Inr (JStr ''DISPUTE_ONGOING'')"
  then have "\<forall>x. issue_gate issue \<noteq> Inr (Some x)"
    by (auto simp: issue_gate_def bind_exn_Inr_iff split: if_splits)
  then show "\<exists>r. process_issue c st issue w = (r, [], w1)"
    using now by (auto simp: process_issue_def split: sum.splits option.splits)
next
  assume post: "PostIssueMessage i t \<in> set (fst (snd (process_issue c st issue w)))"
  obtain r w2 where fetch: "list_issue_messages c i w1 = (r, w2)"
    by (cases "list_issue_messages c i w1")
  from post now have gate: "issue_gate issue = Inr (Some i)"
    by (auto simp: process_issue_def split: sum.splits option.splits prod.splits if_splits)
  then show "issue_status issue = Inr (JStr ''DISPUTE_ONGOING'')"
    by (auto simp: issue_gate_def bind_exn_Inr_iff split: if_splits)
  from post now gate fetch
  obtain d where "bind_exn r (issue_decide c st (Aware n)) = Inr (Some d)"
    by (auto simp: process_issue_def split: sum.splits option.splits prod.splits if_splits)
  then obtain payload where p: "r = Inr payload"
    and d: "issue_decide c st (Aware n) payload = Inr (Some d)"
    by (auto simp: bind_exn_Inr_iff)
  from d obtain msgs sms m where
    "get_or1 payload ''chat'' = Inr msgs" "sort_messages c msgs = Inr sms"
    "py_last sms = Inr m" "issue_last c st (Aware n) m = Inr (Some d)"
    by (auto simp: issue_decide_def bind_exn_Inr_iff split: if_splits)
  then show "\<exists>payload msgs sms m.
                  fst (list_issue_messages c i w1) = Inr payload
                  \<and> get_or1 payload ''chat'' = Inr msgs
                  \<and> sort_messages c msgs = Inr sms
                  \<and> py_last sms = Inr m
                  \<and> author_role m = Inr (JStr ''BUYER'')"
    using fetch p issue_last_Some by fastforce
qed

theorem issue_reply_witness:
  "PostIssueMessage (JStr ''i1'') ''Thank you for reporting the problem.''
     \<in> set (fst (snd (process_issue demo_market demo_settings (demo_issue ''DISPUTE_ONGOING'')
                        demo_now)))
   \<and> issue_status (demo_issue ''DISPUTE_ONGOING'') = Inr (JStr ''DISPUTE_ONGOING'')
   \<and> (\<exists>payload msgs sms m.
          fst (list_issue_messages demo_market (JStr ''i1'') demo_now) = Inr payload
          \<and> get_or1 payload ''chat'' = Inr msgs
          \<and> sort_messages demo_market msgs = Inr sms
          \<and> py_last sms = Inr m
          \<and> author_role m = Inr (JStr ''BUYER''))
   \<and> issue_status (demo_issue ''DISPUTE_CLOSED'') \<noteq> Inr (JStr ''DISPUTE_ONGOING'')
   \<and> (\<exists>r. process_issue demo_market demo_settings (demo_issue ''DISPUTE_CLOSED'') demo_now
          = (r, [], demo_now))"
proof -
  have now: "utcnow demo_market demo_now = (demo_now, demo_now)"
    by (simp add: demo_market_def demo_env_def)
  have run: "process_issue demo_market demo_settings (demo_issue ''DISPUTE_ONGOING'') demo_now
      = (Inr (), [ListIssueMessages (JStr ''i1''),
                  PostIssueMessage (JStr ''i1'') ''Thank you for reporting the problem.''],
         demo_now)"
    by code_simp
  have post: "PostIssueMessage (JStr ''i1'') ''Thank you for reporting the problem.''
     \<in> set (fst (snd (process_issue demo_market demo_settings (demo_issue ''DISPUTE_ONGOING'')
                        demo_now)))"
    by (simp add: run)
  have closed: "issue_status (demo_issue ''DISPUTE_CLOSED'') \<noteq> Inr (JStr ''DISPUTE_ONGOING'')"
    by (simp add: issue_status_def demo_issue_def bind_exn_def)
  show ?thesis
    using post closed
      issue_reply_only_ongoing_dispute_buyer [OF now, of "demo_issue ''DISPUTE_ONGOING''"
        demo_settings "JStr ''i1''" "''Thank you for reporting the problem.''"]
      issue_reply_only_ongoing_dispute_buyer [OF now, of "demo_issue ''DISPUTE_CLOSED''"
        demo_settings]
    by blast
qed

text \<open>
  Claim C5. An issue whose chat holds more than two messages is never answered: the
  processing stops after the fetch, whatever the messages are, so before any sorting and
  before the author of any message is read.
\<close>

theorem issue_chat_cap:
  assumes gate: "issue_gate issue = Inr (Some iid)"
    and now: "utcnow c w = (n, w1)"
    and fetch: "list_issue_messages c iid w1 = (Inr payload, w2)"
    and msgs: "get_or1 payload ''chat'' = Inr msgs"
    and len: "py_len msgs = Inr k" "k > 2"
  shows "issue_decide c st (Aware n) payload = Inr None
       \<and> process_issue c st issue w = (Inr (), [ListIssueMessages iid], w2)"
proof -
  have "issue_decide c st (Aware n) payload = Inr None"
    using msgs len by (simp add: issue_decide_def bind_exn_simps)
  then show ?thesis
    using gate now fetch by (simp add: process_issue_def bind_exn_simps)
qed

theorem issue_chat_cap_witness:
  "issue_decide long_chat_market demo_settings (Aware demo_now)
     (JObj [(''chat'',
            JArr [chat_msg ''2024-01-01T11:50:00Z'' ''BUYER'',
                  chat_msg ''2024-01-01T11:55:00Z'' ''SELLER'',
                  chat_msg ''2024-01-01T12:00:00Z'' ''BUYER''])]) = Inr None
   \<and> process_issue long_chat_market demo_settings (demo_issue ''DISPUTE_ONGOING'') demo_now
       = (Inr (), [ListIssueMessages (JStr ''i1'')], demo_now)"
proof -
  let ?ms = "JArr [chat_msg ''2024-01-01T11:50:00Z'' ''BUYER'',
                  chat_msg ''2024-01-01T11:55:00Z'' ''SELLER'',
                  chat_msg ''2024-01-01T12:00:00Z'' ''BUYER'']"
  have 1: "issue_gate (demo_issue ''DISPUTE_ONGOING'') = Inr (Some (JStr ''i1''))"
    by (simp add: issue_gate_def issue_status_def demo_issue_def bind_exn_def)
  have 2: "utcnow long_chat_market demo_now = (demo_now, demo_now)"
    by (simp add: long_chat_market_def demo_env_def)
  have 3: "list_issue_messages long_chat_market (JStr ''i1'') demo_now
             = (Inr (JObj [(''chat'', ?ms)]), demo_now)"
    by (simp add: long_chat_market_def demo_env_def long_chat_def)
  have 4: "get_or1 (JObj [(''chat'', ?ms)]) ''chat'' = Inr ?ms"
    by (simp add: get_or1_def bind_exn_def)
  have 5: "py_len ?ms = Inr 3" by simp
  have 6: "(3::nat) > 2" by simp
  show ?thesis
    using issue_chat_cap [OF 1 2 3 4 5 6] .
qed

section \<open>The loops\<close>

text \<open>Every call made by a loop is made by the processing of one of its items.\<close>

lemma threads_loop_calls:
  "x \<in> set (fst (snd (threads_loop c st ths w))) \<Longrightarrow>
     \<exists>th \<in> set ths. \<exists>w'. x \<in> set (fst (snd (process_thread c st th w')))"
proof (induction ths arbitrary: w)
  case Nil
  then show ?case by simp
next
  case (Cons th ths)
  obtain r cs w1 where it: "process_thread c st th w = (r, cs, w1)"
    by (cases "process_thread c st th w")
  show ?case
  proof (cases r)
    case (Inl e)
    with it Cons.prems have "x \<in> set (fst (snd (process_thread c st th w)))" by simp
    then show ?thesis by auto
  next
    case (Inr u)
    obtain r' cs' w2 where rest: "threads_loop c st ths w1 = (r', cs', w2)"
      by (cases "threads_loop c st ths w1")
    with it Inr Cons.prems have "x \<in> set cs \<or> x \<in> set cs'" by auto
    then show ?thesis
    proof
      assume "x \<in> set cs"
      with it have "x \<in> set (fst (snd (process_thread c st th w)))" by simp
      then show ?thesis by auto
    next
      assume "x \<in> set cs'"
      with rest Cons.IH [of w1] show ?thesis by auto
    qed
  qed
qed

lemma issues_loop_calls:
  "x \<in> set (fst (snd (issues_loop c st iss w))) \<Longrightarrow>
     \<exists>issue \<in> set iss. \<exists>w'. x \<in> set (fst (snd (process_issue c st issue w')))"
proof (induction iss arbitrary: w)
  case Nil
  then show ?case by simp
next
  case (Cons issue iss)
  obtain r cs w1 where it: "process_issue c st issue w = (r, cs, w1)"
    by (cases "process_issue c st issue w")
  show ?case
  proof (cases r)
    case (Inl e)
    with it Cons.prems have "x \<in> set (fst (snd (process_issue c st issue w)))" by simp
    then show ?thesis by auto
  next
    case (Inr u)
    obtain r' cs' w2 where rest: "issues_loop c st iss w1 = (r', cs', w2)"
      by (cases "issues_loop c st iss w1")
    with it Inr Cons.prems have "x \<in> set cs \<or> x \<in> set cs'" by auto
    then show ?thesis
    proof
      assume "x \<in> set cs"
      with it have "x \<in> set (fst (snd (process_issue c st issue w)))" by simp
      then show ?thesis by auto
    next
      assume "x \<in> set cs'"
      with rest Cons.IH [of w1] show ?thesis by auto
    qed
  qed
qed

section \<open>Sorting before the last message is read\<close>

lemma sorted_le_last: "sorted xs \<Longrightarrow> x \<in> set xs \<Longrightarrow> x \<le> last (xs :: 'a :: linorder list)"
  by (induction xs) auto

lemma sort_messages_str:
  assumes "map_exn ts ms = Inr keys" "list_all is_JStr keys"
  shows "sort_messages c (JArr ms) = Inr (if length ms \<le> 1 then ms else sort_key ts_key ms)"
  using assms by (simp add: sort_messages_def bind_exn_simps)

lemma sort_messages_props:
  assumes "sms = (if length ms \<le> 1 then ms else sort_key ts_key ms)"
  shows "sorted (map ts_key sms)" "mset sms = mset ms"
proof -
  show "sorted (map ts_key sms)"
  proof (cases "length ms \<le> 1")
    case True
    then have "ms = [] \<or> (\<exists>x. ms = [x])"
      by (cases ms) auto
    with assms True show ?thesis by auto
  next
    case False
    with assms show ?thesis by simp
  qed
  show "mset sms = mset ms" using assms by simp
qed

text \<open>
  Claim C6. When the sort keys of the fetched messages are strings, the list is sorted in
  ascending order of the keys before its last message is read: the sort returns a
  permutation of the messages whose keys ascend, so no message has a greater key than the
  last one, and the thread processor and the issue processor (for a chat within the cap)
  decide from that last message alone. A message with no timestamp has the empty string as
  its key, the least one, so it comes first.
\<close>

theorem messages_sorted_before_last:
  assumes keys: "map_exn ts ms = Inr keys" "list_all is_JStr keys"
    and ne: "ms \<noteq> []"
  shows "\<exists>sms. sort_messages c (JArr ms) = Inr sms
           \<and> sorted (map ts_key sms) \<and> mset sms = mset ms
           \<and> (\<forall>m \<in> set ms. ts_key m \<le> ts_key (last sms))
           \<and> (get_or2 tp ''messages'' ''items'' = Inr (JArr ms) \<longrightarrow>
                thread_decide c st now tp = thread_last c st now (last sms))
           \<and> (get_or1 ip ''chat'' = Inr (JArr ms) \<and> length ms \<le> 2 \<longrightarrow>
                issue_decide c st now ip = issue_last c st now (last sms))
           \<and> (map_of kvs ''createdAt'' = None \<and> map_of kvs ''created'' = None
                \<and> map_of kvs ''creationDate'' = None \<longrightarrow>
                ts (JObj kvs) = Inr (JStr []) \<and> (\<forall>m. ts_key (JObj kvs) \<le> ts_key m))"
proof -
  define sms where "sms = (if length ms \<le> 1 then ms else sort_key ts_key ms)"
  have s: "sort_messages c (JArr ms) = Inr sms"
    using sort_messages_str [OF keys, of c] by (simp add: sms_def)
  have srt: "sorted (map ts_key sms)" and perm: "mset sms = mset ms"
    using sort_messages_props [OF sms_def] by simp_all
  have sne: "sms \<noteq> []"
    using perm ne by auto
  have max: "\<forall>m \<in> set ms. ts_key m \<le> ts_key (last sms)"
  proof
    fix m assume "m \<in> set ms"
    then have "m \<in> set sms" using perm by (metis set_mset_mset)
    then have "ts_key m \<in> set (map ts_key sms)" by simp
    then have "ts_key m \<le> last (map ts_key sms)" using srt sorted_le_last by blast
    then show "ts_key m \<le> ts_key (last sms)" using sne by (simp add: last_map)
  qed
  have lst: "py_last sms = Inr (last sms)"
    using sne by (simp add: py_last_def)
  have t: "get_or2 tp ''messages'' ''items'' = Inr (JArr ms) \<longrightarrow>
                thread_decide c st now tp = thread_last c st now (last sms)"
    using s lst ne by (simp add: thread_decide_def bind_exn_simps)
  have i: "get_or1 ip ''chat'' = Inr (JArr ms) \<and> length ms \<le> 2 \<longrightarrow>
                issue_decide c st now ip = issue_last c st now (last sms)"
    using s lst ne by (simp add: issue_decide_def bind_exn_simps)
  have k: "map_of kvs ''createdAt'' = None \<and> map_of kvs ''created'' = None
                \<and> map_of kvs ''creationDate'' = None \<longrightarrow>
                ts (JObj kvs) = Inr (JStr []) \<and> (\<forall>m. ts_key (JObj kvs) \<le> ts_key m)"
    by (simp add: ts_def ts_key_def bind_exn_simps)
  show ?thesis
    using s srt perm max t i k by blast
qed

theorem messages_sorted_witness:
  "sort_messages demo_market
     (JArr [JObj [(''createdAt'', JStr ''2024-01-02'')], JObj [(''createdAt'', JStr ''2024-01-01'')],
            JObj [(''text'', JStr ''no timestamp'')]])
   = Inr [JObj [(''text'', JStr ''no timestamp'')], JObj [(''createdAt'', JStr ''2024-01-01'')],
          JObj [(''createdAt'', JStr ''2024-01-02'')]]
   \<and> thread_decide demo_market demo_settings (Aware demo_now)
        (JObj [(''messages'',
           JArr [JObj [(''createdAt'', JStr ''2024-01-02'')],
                 JObj [(''createdAt'', JStr ''2024-01-01'')],
                 JObj [(''text'', JStr ''no timestamp'')]])])
      = thread_last demo_market demo_settings (Aware demo_now)
          (JObj [(''createdAt'', JStr ''2024-01-02'')])
   \<and> ts (JObj [(''text'', JStr ''no timestamp'')]) = Inr (JStr [])"
proof -
  let ?a = "JObj [(''createdAt'', JStr ''2024-01-02'')]"
  let ?b = "JObj [(''createdAt'', JStr ''2024-01-01'')]"
  let ?n = "JObj [(''text'', JStr ''no timestamp'')]"
  let ?ms = "[?a, ?b, ?n]"
  let ?tp = "JObj [(''messages'', JArr ?ms)]"
  have 1: "map_exn ts ?ms = Inr [JStr ''2024-01-02'', JStr ''2024-01-01'', JStr []]"
    by (simp add: ts_def bind_exn_simps)
  have 2: "list_all is_JStr [JStr ''2024-01-02'', JStr ''2024-01-01'', JStr []]"
    by simp
  have 3: "?ms \<noteq> []" by simp
  have 4: "get_or2 ?tp ''messages'' ''items'' = Inr (JArr ?ms)"
    by (simp add: get_or2_def bind_exn_simps)
  have 5: "map_of [(''text'', JStr ''no timestamp'')] ''createdAt'' = None
     \<and> map_of [(''text'', JStr ''no timestamp'')] ''created'' = None
     \<and> map_of [(''text'', JStr ''no timestamp'')] ''creationDate'' = None"
    by simp
  have 6: "sort_messages demo_market (JArr ?ms) = Inr [?n, ?b, ?a]"
    by code_simp
  from messages_sorted_before_last [OF 1 2 3, of demo_market ?tp demo_settings "Aware demo_now"
      JNull "[(''text'', JStr ''no timestamp'')]"]
  obtain sms where a: "sort_messages demo_market (JArr ?ms) = Inr sms"
    and b: "get_or2 ?tp ''messages'' ''items'' = Inr (JArr ?ms) \<longrightarrow>
          thread_decide demo_market demo_settings (Aware demo_now) ?tp =
          thread_last demo_market demo_settings (Aware demo_now) (last sms)"
    and c: "ts ?n = Inr (JStr [])"
    using 5 by blast
  from a 6 have "sms = [?n, ?b, ?a]" by simp
  with b c 4 6 show ?thesis by simp
qed

section \<open>Failures\<close>

text \<open>What does hold: a failed post is dropped, an issue that passed the checks made
  outside the \<^verbatim>\<open>try\<close> never raises, so neither does a loop over such issues, and no
  turn of the poll loop raises, so the loop is still running after any number of turns, each
  of which has slept.\<close>

lemma process_thread_post_swallowed:
  "PostMessage t x \<in> set (fst (snd (process_thread c st th w))) \<Longrightarrow>
     fst (process_thread c st th w) = Inr ()"
  by (auto simp: process_thread_def split: prod.splits sum.splits option.splits if_splits)

lemma post_failure_keeps_batch:
  "process_threads failing_post_market demo_settings (Aware demo_now) demo_now
     = (Inr (), [ListThreads 5 0,
                 ListMessages (JStr ''t1''), PostMessage (JStr ''t1'') ''Thank you for your message.'',
                 ListMessages (JStr ''t2''), PostMessage (JStr ''t2'') ''Thank you for your message.''],
        demo_now)"
  by code_simp

lemma process_issue_after_gate:
  "issue_gate issue = Inr g \<Longrightarrow> fst (process_issue c st issue w) = Inr ()"
  by (auto simp: process_issue_def split: prod.splits sum.splits option.splits)

lemma issues_loop_never_raises:
  "\<forall>issue \<in> set iss. \<exists>g. issue_gate issue = Inr g \<Longrightarrow>
     fst (issues_loop c st iss w) = Inr ()"
proof (induction iss arbitrary: w)
  case Nil
  then show ?case by simp
next
  case (Cons issue iss)
  then obtain g where "issue_gate issue = Inr g" by auto
  then have "fst (process_issue c st issue w) = Inr ()"
    by (rule process_issue_after_gate)
  then obtain cs w1 where it: "process_issue c st issue w = (Inr (), cs, w1)"
    by (cases "process_issue c st issue w") auto
  from Cons have "fst (issues_loop c st iss w1) = Inr ()" by simp
  with it show ?case by (cases "issues_loop c st iss w1") auto
qed

lemma poll_iteration_never_raises:
  "fst (poll_iteration c st w) = Inr ()"
  by (simp add: poll_iteration_def split: prod.splits)

lemma filter_eq_count: "x \<in> set cs \<Longrightarrow> 1 \<le> length (filter (\<lambda>y. y = x) cs)"
  by (induction cs) auto

lemma poll_loop_keeps_running:
  "fst (poll_loop k c st w) = None
   \<and> k \<le> length (filter (\<lambda>x. x = Sleep (poll_interval_seconds st)) (fst (snd (poll_loop k c st w))))"
proof (induction k arbitrary: w)
  case 0
  then show ?case by simp
next
  case (Suc k)
  obtain r cs w1 where it: "poll_iteration c st w = (r, cs, w1)"
    by (cases "poll_iteration c st w")
  then have r: "r = Inr ()" using poll_iteration_never_raises [of c st w] by simp
  have sl: "Sleep (poll_interval_seconds st) \<in> set cs"
    using it by (auto simp: poll_iteration_def split: prod.splits)
  then have "length (filter (\<lambda>x. x = Sleep (poll_interval_seconds st)) cs) \<ge> 1"
    by (rule filter_eq_count)
  then show ?case
    using it r Suc.IH [of w1]
    by (cases "poll_loop k c st w1") auto
qed

text \<open>
  Claim C7. The claim that no failure of one item leaves the processing of that item does
  not hold for the thread processor: \<^verbatim>\<open>list_messages\<close> is called outside any
  \<^verbatim>\<open>try\<close>. When the fetch of the messages of \<open>t1\<close> fails, the exception leaves
  \<^verbatim>\<open>process_threads\<close> and \<^verbatim>\<open>process_once\<close>: the thread \<open>t2\<close> is never fetched and the
  issues are never listed in that cycle, while the same batch without the failure answers
  both threads. The poll loop then drops the exception and sleeps.
\<close>

theorem thread_fetch_failure_aborts_batch:
  "process_threads failing_market demo_settings (Aware demo_now) demo_now
     = (Inl (ApiError ''HTTP 500''), [ListThreads 5 0, ListMessages (JStr ''t1'')], demo_now)
   \<and> process_once failing_market demo_settings demo_now
     = (Inl (ApiError ''HTTP 500''), [ListThreads 5 0, ListMessages (JStr ''t1'')], demo_now)
   \<and> poll_iteration failing_market demo_settings demo_now
     = (Inr (), [ListThreads 5 0, ListMessages (JStr ''t1''), Sleep 60], demo_now + 60000000)
   \<and> process_threads demo_market demo_settings (Aware demo_now) demo_now
     = (Inr (), [ListThreads 5 0,
                 ListMessages (JStr ''t1''), PostMessage (JStr ''t1'') ''Thank you for your message.'',
                 ListMessages (JStr ''t2''), PostMessage (JStr ''t2'') ''Thank you for your message.''],
        demo_now)"
  by code_simp

section \<open>Posting the reply\<close>

text \<open>With an empty first-contact template the engine answers \<open>should_reply = True\<close> for an
  eligible thread, and nothing is posted.\<close>

theorem empty_template_counterexample:
  "thread_decide single_question_market empty_template_settings (Aware demo_now)
      (JObj [(''messages'', JArr [thread_msg ''2024-01-01T12:00:00Z'' True ''ASK_QUESTION''])])
     = Inr (Some \<lparr>should_reply = True, message = Some [], reason = ''ask message''\<rparr>)
   \<and> process_thread single_question_market empty_template_settings
        (JObj [(''id'', JStr ''t1'')]) demo_now
     = (Inr (), [ListMessages (JStr ''t1'')], demo_now)"
  by code_simp

text \<open>
  Claim C8, amended. When the engine answers \<open>should_reply = True\<close> with the text \<open>text\<close>
  for an eligible thread or issue, the processing of that item makes, after the fetch,
  exactly one call of \<^verbatim>\<open>post_message\<close> (of \<^verbatim>\<open>post_issue_message\<close> for an issue) with
  that text if the text is not empty, and no further call if it is empty; whether or not
  the post fails, the item ends normally.
\<close>

theorem reply_posted_once:
  assumes now: "utcnow c w = (n, w1)"
  shows "(thread_id_of th = Inr tid \<and> truthy tid
            \<and> list_messages c tid w1 = (Inr payload, wa)
            \<and> thread_decide c st (Aware n) payload = Inr (Some d)
            \<and> should_reply d \<and> message d = Some body \<longrightarrow>
          process_thread c st th w =
            (if body \<noteq> []
             then (Inr (), [ListMessages tid, PostMessage tid body],
                   snd (post_message c tid body wa))
             else (Inr (), [ListMessages tid], wa)))
       \<and> (issue_gate issue = Inr (Some iid)
            \<and> list_issue_messages c iid w1 = (Inr ipayload, wb)
            \<and> issue_decide c st (Aware n) ipayload = Inr (Some d')
            \<and> should_reply d' \<and> message d' = Some body' \<longrightarrow>
          process_issue c st issue w =
            (if body' \<noteq> []
             then (Inr (), [ListIssueMessages iid, PostIssueMessage iid body'],
                   snd (post_issue_message c iid body' wb))
             else (Inr (), [ListIssueMessages iid], wb)))"
  using now
  by (auto simp: process_thread_def process_issue_def bind_exn_simps reply_text_def
           split: prod.splits)

theorem reply_posted_once_witness:
  "process_thread demo_market demo_settings (JObj [(''id'', JStr ''t1'')]) demo_now
     = (Inr (), [ListMessages (JStr ''t1''),
                 PostMessage (JStr ''t1'') ''Thank you for your message.''], demo_now)
   \<and> process_issue demo_market demo_settings (demo_issue ''DISPUTE_ONGOING'') demo_now
     = (Inr (), [ListIssueMessages (JStr ''i1''),
                 PostIssueMessage (JStr ''i1'') ''Thank you for reporting the problem.''],
        demo_now)"
proof -
  let ?th = "JObj [(''id'', JStr ''t1'')]"
  let ?p = "JObj [(''messages'',
              JArr [thread_msg ''2024-01-01T12:00:00Z'' True ''ASK_QUESTION'',
                    thread_msg ''2024-01-01T11:55:00Z'' False ''ASK_QUESTION''])]"
  let ?d = "\<lparr>should_reply = True, message = Some ''Thank you for your message.'',
             reason = ''ask message''\<rparr>"
  let ?ip = "JObj [(''chat'',
               JArr [chat_msg ''2024-01-01T12:00:00Z'' ''BUYER'',
                     chat_msg ''2024-01-01T11:55:00Z'' ''SELLER''])]"
  let ?d' = "\<lparr>should_reply = True, message = Some ''Thank you for reporting the problem.'',
              reason = ''issue''\<rparr>"
  have now: "utcnow demo_market demo_now = (demo_now, demo_now)"
    by (simp add: demo_market_def demo_env_def)
  have t1: "thread_id_of ?th = Inr (JStr ''t1'')"
    by (simp add: thread_id_of_def bind_exn_simps)
  have t2: "list_messages demo_market (JStr ''t1'') demo_now = (Inr ?p, demo_now)"
    by (simp add: demo_market_def demo_env_def demo_messages_def)
  have t3: "thread_decide demo_market demo_settings (Aware demo_now) ?p = Inr (Some ?d)"
    by code_simp
  have t4: "snd (post_message demo_market (JStr ''t1'') ''Thank you for your message.'' demo_now)
              = demo_now"
    by (simp add: demo_market_def demo_env_def)
  have i1: "issue_gate (demo_issue ''DISPUTE_ONGOING'') = Inr (Some (JStr ''i1''))"
    by (simp add: issue_gate_def issue_status_def demo_issue_def bind_exn_def)
  have i2: "list_issue_messages demo_market (JStr ''i1'') demo_now = (Inr ?ip, demo_now)"
    by (simp add: demo_market_def demo_env_def demo_chat_def)
  have i3: "issue_decide demo_market demo_settings (Aware demo_now) ?ip = Inr (Some ?d')"
    by code_simp
  have i4: "snd (post_issue_message demo_market (JStr ''i1'')
                   ''Thank you for reporting the problem.'' demo_now) = demo_now"
    by (simp add: demo_market_def demo_env_def)
  show ?thesis
    using t1 t2 t3 t4 i1 i2 i3 i4
      reply_posted_once [OF now, where th = "?th" and tid = "JStr ''t1''" and payload = "?p"
        and wa = demo_now and st = demo_settings and d = "?d"
        and body = "''Thank you for your message.''"
        and issue = "demo_issue ''DISPUTE_ONGOING''" and iid = "JStr ''i1''" and ipayload = "?ip"
        and wb = demo_now and d' = "?d'" and body' = "''Thank you for reporting the problem.''"]
    by simp
qed

section \<open>The time of the message\<close>

lemma replace_Z_trailing:
  "CHR ''Z'' \<notin> set p \<Longrightarrow> replace_Z (JStr (p @ ''Z'')) = Inr (p @ ''+00:00'')"
proof -
  assume "CHR ''Z'' \<notin> set p"
  then have "concat (map (\<lambda>ch. if ch = CHR ''Z'' then ''+00:00'' else [ch]) p) = p"
    by (induction p) auto
  then show ?thesis by simp
qed

lemma parse_timestamp_total: "\<exists>t. parse_timestamp c v now = Inr t"
proof (cases "truthy v")
  case False
  then show ?thesis by (simp add: parse_timestamp_def)
next
  case True
  let ?r = "bind_exn (replace_Z v)
              (\<lambda>s. case fromisoformat c s of None \<Rightarrow> Inl ValueError | Some d \<Rightarrow> Inr d)"
  have "(\<exists>d. ?r = Inr d) \<or> ?r = Inl ValueError \<or> ?r = Inl AttributeError"
    by (cases v) (simp_all add: bind_exn_def split: option.splits)
  then show ?thesis
    using True by (auto simp: parse_timestamp_def)
qed

text \<open>
  Claim C9. \<^verbatim>\<open>parse_timestamp\<close> never raises. For a non-empty string that
  \<^verbatim>\<open>fromisoformat\<close> accepts once its \<^verbatim>\<open>Z\<close> is replaced by \<^verbatim>\<open>+00:00\<close> (as a trailing
  \<^verbatim>\<open>Z\<close> is), it returns the parsed datetime; for a value that is not a string, for the
  empty string and for a string that is not accepted, it returns \<open>now\<close>. Both processors
  pass the result for the \<^verbatim>\<open>createdAt\<close> of the last message, with the \<open>now\<close> of the item,
  to the decision engine.
\<close>

theorem msg_time_parsed_or_now:
  "(\<exists>t. parse_timestamp c v now = Inr t)
   \<and> (s \<noteq> [] \<and> replace_Z (JStr s) = Inr s' \<and> fromisoformat c s' = Some d \<longrightarrow>
        parse_timestamp c (JStr s) now = Inr d)
   \<and> ((\<forall>x. v \<noteq> JStr x) \<or> v = JStr []
        \<or> (\<exists>x'. replace_Z v = Inr x' \<and> fromisoformat c x' = None) \<longrightarrow>
        parse_timestamp c v now = Inr now)
   \<and> (CHR ''Z'' \<notin> set p \<longrightarrow> replace_Z (JStr (p @ ''Z'')) = Inr (p @ ''+00:00''))
   \<and> (parse_timestamp c v now = Inr t \<and> py_get m ''createdAt'' JNull = Inr v
        \<and> is_from_interlocutor m = Inr flag \<and> truthy flag \<and> is_ask_type m = Inr True \<longrightarrow>
        thread_last c st now m = bind_exn (decide_autoreply now t st False) (\<lambda>d. Inr (Some d)))
   \<and> (parse_timestamp c v now = Inr t \<and> py_get m ''createdAt'' JNull = Inr v
        \<and> author_role m = Inr (JStr ''BUYER'') \<longrightarrow>
        issue_last c st now m = bind_exn (decide_autoreply now t st True) (\<lambda>d. Inr (Some d)))"
proof (intro conjI impI)
  show "\<exists>t. parse_timestamp c v now = Inr t" by (rule parse_timestamp_total)
next
  assume "s \<noteq> [] \<and> replace_Z (JStr s) = Inr s' \<and> fromisoformat c s' = Some d"
  then show "parse_timestamp c (JStr s) now = Inr d"
    by (simp add: parse_timestamp_def bind_exn_def)
next
  assume "(\<forall>x. v \<noteq> JStr x) \<or> v = JStr []
        \<or> (\<exists>x'. replace_Z v = Inr x' \<and> fromisoformat c x' = None)"
  then show "parse_timestamp c v now = Inr now"
    by (cases v) (auto simp: parse_timestamp_def bind_exn_def)
next
  assume "CHR ''Z'' \<notin> set p"
  then show "replace_Z (JStr (p @ ''Z'')) = Inr (p @ ''+00:00'')" by (rule replace_Z_trailing)
next
  assume "parse_timestamp c v now = Inr t \<and> py_get m ''createdAt'' JNull = Inr v
        \<and> is_from_interlocutor m = Inr flag \<and> truthy flag \<and> is_ask_type m = Inr True"
  then show "thread_last c st now m = bind_exn (decide_autoreply now t st False) (\<lambda>d. Inr (Some d))"
    by (simp add: thread_last_def bind_exn_simps)
next
  assume "parse_timestamp c v now = Inr t \<and> py_get m ''createdAt'' JNull = Inr v
        \<and> author_role m = Inr (JStr ''BUYER'')"
  then show "issue_last c st now m = bind_exn (decide_autoreply now t st True) (\<lambda>d. Inr (Some d))"
    by (simp add: issue_last_def bind_exn_simps)
qed

theorem msg_time_witness:
  "parse_timestamp demo_market (JStr ''2024-01-01T12:00:00Z'') (Aware demo_now)
     = Inr (Aware 1704110400000000)
   \<and> replace_Z (JStr ''2024-01-01T12:00:00Z'') = Inr ''2024-01-01T12:00:00+00:00''
   \<and> parse_timestamp demo_market (JStr ''yesterday'') (Aware demo_now) = Inr (Aware demo_now)
   \<and> parse_timestamp demo_market JNull (Aware demo_now) = Inr (Aware demo_now)
   \<and> parse_timestamp demo_market (JInt 1704110400) (Aware demo_now) = Inr (Aware demo_now)
   \<and> thread_last demo_market demo_settings (Aware demo_now)
        (thread_msg ''2024-01-01T12:00:00Z'' True ''ASK_QUESTION'')
     = bind_exn (decide_autoreply (Aware demo_now) (Aware 1704110400000000) demo_settings False)
         (\<lambda>d. Inr (Some d))
   \<and> issue_last demo_market demo_settings (Aware demo_now)
        (chat_msg ''2024-01-01T12:00:00Z'' ''BUYER'')
     = bind_exn (decide_autoreply (Aware demo_now) (Aware 1704110400000000) demo_settings True)
         (\<lambda>d. Inr (Some d))"
proof -
  let ?z = "''2024-01-01T12:00:00Z''"
  let ?s' = "''2024-01-01T12:00:00+00:00''"
  let ?t = "Aware 1704110400000000"
  let ?tm = "thread_msg ?z True ''ASK_QUESTION''"
  let ?cm = "chat_msg ?z ''BUYER''"
  have f: "fromisoformat demo_market = demo_fromisoformat"
    by (simp add: demo_market_def demo_env_def)
  have 1: "?z \<noteq> [] \<and> replace_Z (JStr ?z) = Inr ?s' \<and> fromisoformat demo_market ?s' = Some ?t"
    by (simp add: f demo_fromisoformat_def)
  have 2: "CHR ''Z'' \<notin> set ''2024-01-01T12:00:00''"
    by simp
  have 3: "\<exists>x'. replace_Z (JStr ''yesterday'') = Inr x' \<and> fromisoformat demo_market x' = None"
    by (simp add: f demo_fromisoformat_def)
  have 4: "\<forall>x. JNull \<noteq> JStr x" "\<forall>x. JInt 1704110400 \<noteq> JStr x"
    by simp_all
  have 5: "py_get ?tm ''createdAt'' JNull = Inr (JStr ?z)
           \<and> is_from_interlocutor ?tm = Inr (JBool True) \<and> truthy (JBool True)
           \<and> is_ask_type ?tm = Inr True"
    by (simp add: thread_msg_def is_from_interlocutor_def is_ask_type_def bind_exn_simps)
  have 6: "py_get ?cm ''createdAt'' JNull = Inr (JStr ?z)
           \<and> author_role ?cm = Inr (JStr ''BUYER'')"
    by (simp add: chat_msg_def author_role_def bind_exn_simps)
  note a = msg_time_parsed_or_now [where c = demo_market and now = "Aware demo_now"
      and v = "JStr ?z" and s = "?z" and s' = "?s'" and d = "?t" and p = "''2024-01-01T12:00:00''"
      and t = "?t" and m = "?tm" and flag = "JBool True" and st = demo_settings]
  note b = msg_time_parsed_or_now [where c = demo_market and now = "Aware demo_now"
      and v = "JStr ?z" and s = "?z" and s' = "?s'" and d = "?t" and p = "''2024-01-01T12:00:00''"
      and t = "?t" and m = "?cm" and flag = "JBool True" and st = demo_settings]
  note c = msg_time_parsed_or_now [where c = demo_market and now = "Aware demo_now"
      and v = "JStr ''yesterday''"]
  note d = msg_time_parsed_or_now [where c = demo_market and now = "Aware demo_now"
      and v = JNull]
  note e = msg_time_parsed_or_now [where c = demo_market and now = "Aware demo_now"
      and v = "JInt 1704110400"]
  have p1: "parse_timestamp demo_market (JStr ?z) (Aware demo_now) = Inr ?t"
    using a 1 by blast
  have p2: "replace_Z (JStr ?z) = Inr ?s'"
    using 1 by blast
  have p3: "parse_timestamp demo_market (JStr ''yesterday'') (Aware demo_now) = Inr (Aware demo_now)"
    using c 3 by blast
  have p4: "parse_timestamp demo_market JNull (Aware demo_now) = Inr (Aware demo_now)"
    using d 4(1) by blast
  have p5: "parse_timestamp demo_market (JInt 1704110400) (Aware demo_now) = Inr (Aware demo_now)"
    using e 4(2) by blast
  have p6: "thread_last demo_market demo_settings (Aware demo_now) ?tm
     = bind_exn (decide_autoreply (Aware demo_now) ?t demo_settings False) (\<lambda>d. Inr (Some d))"
    using a p1 5 by blast
  have p7: "issue_last demo_market demo_settings (Aware demo_now) ?cm
     = bind_exn (decide_autoreply (Aware demo_now) ?t demo_settings True) (\<lambda>d. Inr (Some d))"
    using b p1 6 by blast
  show ?thesis
    using p1 p2 p3 p4 p5 p6 p7 by blast
qed

text \<open>
  Claim C10. Take a list of fetched messages with string keys in which one message has no
  \<^verbatim>\<open>createdAt\<close> and carries its time \<open>s\<close>, a non-empty string, under \<^verbatim>\<open>created\<close> or
  \<^verbatim>\<open>creationDate\<close>, every other message having a smaller key. Wherever that message
  stands in the fetched list, the sort puts it last, by the key \<open>s\<close>; yet the time given
  to the decision engine is \<open>now\<close>. So whatever \<open>s\<close> says and however it would parse, an
  eligible message of this kind is never found too old: the thread processor and the issue
  processor decide to reply and post the template.
\<close>

theorem created_only_timestamp_never_stale:
  assumes keys: "map_exn ts ms = Inr keys" "list_all is_JStr keys"
    and mem: "JObj kvs \<in> set ms"
    and no_createdAt: "map_of kvs ''createdAt'' = None"
    and other: "map_of kvs ''created'' = Some (JStr s)
                \<or> (map_of kvs ''created'' = None \<and> map_of kvs ''creationDate'' = Some (JStr s))"
    and s: "s \<noteq> []"
    and newest: "\<forall>m \<in> set ms. m \<noteq> JObj kvs \<longrightarrow> ts_key m < s"
    and now: "utcnow c w = (n, w1)"
  shows "\<exists>sms. sort_messages c (JArr ms) = Inr sms
           \<and> last sms = JObj kvs \<and> ts_key (JObj kvs) = s
           \<and> (thread_id_of th = Inr tid \<and> truthy tid
                \<and> list_messages c tid w1 = (Inr tp, wa)
                \<and> get_or2 tp ''messages'' ''items'' = Inr (JArr ms)
                \<and> is_from_interlocutor (JObj kvs) = Inr flag \<and> truthy flag
                \<and> is_ask_type (JObj kvs) = Inr True \<longrightarrow>
              thread_decide c st (Aware n) tp =
                Inr (Some \<lparr>should_reply = True, message = Some (autoresponse_message st),
                           reason = ''ask message''\<rparr>)
              \<and> (autoresponse_message st \<noteq> [] \<longrightarrow>
                   process_thread c st th w =
                     (Inr (), [ListMessages tid, PostMessage tid (autoresponse_message st)],
                      snd (post_message c tid (autoresponse_message st) wa))))
           \<and> (issue_gate issue = Inr (Some iid)
                \<and> list_issue_messages c iid w1 = (Inr ip, wb)
                \<and> get_or1 ip ''chat'' = Inr (JArr ms) \<and> length ms \<le> 2
                \<and> author_role (JObj kvs) = Inr (JStr ''BUYER'') \<longrightarrow>
              issue_decide c st (Aware n) ip =
                Inr (Some \<lparr>should_reply = True, message = Some (autoresponse_issue st),
                           reason = ''issue''\<rparr>)
              \<and> (autoresponse_issue st \<noteq> [] \<longrightarrow>
                   process_issue c st issue w =
                     (Inr (), [ListIssueMessages iid, PostIssueMessage iid (autoresponse_issue st)],
                      snd (post_issue_message c iid (autoresponse_issue st) wb))))"
proof -
  define sms where "sms = (if length ms \<le> 1 then ms else sort_key ts_key ms)"
  have srt_eq: "sort_messages c (JArr ms) = Inr sms"
    using sort_messages_str [OF keys, of c] by (simp add: sms_def)
  have srt: "sorted (map ts_key sms)" and perm: "mset sms = mset ms"
    using sort_messages_props [OF sms_def] by simp_all
  have ne: "ms \<noteq> []"
    using mem by auto
  have sne: "sms \<noteq> []"
    using perm ne by auto
  have sets: "set sms = set ms"
    using perm by (metis set_mset_mset)
  have key: "ts (JObj kvs) = Inr (JStr s)"
    using no_createdAt other s by (auto simp: ts_def bind_exn_simps)
  then have k: "ts_key (JObj kvs) = s"
    by (simp add: ts_key_def)
  have lst: "last sms = JObj kvs"
  proof (rule ccontr)
    assume neq: "last sms \<noteq> JObj kvs"
    have "last sms \<in> set ms"
      using sne sets by auto
    with neq newest have small: "ts_key (last sms) < s" by blast
    have "ts_key (JObj kvs) \<in> set (map ts_key sms)"
      using mem sets by simp
    then have "ts_key (JObj kvs) \<le> last (map ts_key sms)"
      using srt sorted_le_last by blast
    then have "s \<le> ts_key (last sms)"
      using sne k by (simp add: last_map)
    with small show False by simp
  qed
  have pl: "py_last sms = Inr (JObj kvs)"
    using sne lst by (simp add: py_last_def)
  have t: "parse_timestamp c JNull (Aware n) = Inr (Aware n)"
    by (simp add: parse_timestamp_def)
  have d: "decide_autoreply (Aware n) (Aware n) st b =
      Inr (if b then Decision True (Some (autoresponse_issue st)) ''issue''
           else Decision True (Some (autoresponse_message st)) ''ask message'')" for b
    by (simp add: decide_autoreply_def bind_exn_simps timedelta_minutes_def)
  have tl: "is_from_interlocutor (JObj kvs) = Inr flag \<and> truthy flag
            \<and> is_ask_type (JObj kvs) = Inr True \<longrightarrow>
          thread_last c st (Aware n) (JObj kvs) =
            Inr (Some \<lparr>should_reply = True, message = Some (autoresponse_message st),
                       reason = ''ask message''\<rparr>)"
    using no_createdAt t d [of False]
    by (simp add: thread_last_def bind_exn_simps Decision_def)
  have il: "author_role (JObj kvs) = Inr (JStr ''BUYER'') \<longrightarrow>
          issue_last c st (Aware n) (JObj kvs) =
            Inr (Some \<lparr>should_reply = True, message = Some (autoresponse_issue st),
                       reason = ''issue''\<rparr>)"
    using no_createdAt t d [of True]
    by (simp add: issue_last_def bind_exn_simps Decision_def)
  have td: "get_or2 tp ''messages'' ''items'' = Inr (JArr ms) \<longrightarrow>
              thread_decide c st (Aware n) tp = thread_last c st (Aware n) (JObj kvs)"
    using srt_eq pl ne by (simp add: thread_decide_def bind_exn_simps)
  have idc: "get_or1 ip ''chat'' = Inr (JArr ms) \<and> length ms \<le> 2 \<longrightarrow>
              issue_decide c st (Aware n) ip = issue_last c st (Aware n) (JObj kvs)"
    using srt_eq pl ne by (simp add: issue_decide_def bind_exn_simps)
  have thread: "thread_id_of th = Inr tid \<and> truthy tid
                \<and> list_messages c tid w1 = (Inr tp, wa)
                \<and> get_or2 tp ''messages'' ''items'' = Inr (JArr ms)
                \<and> is_from_interlocutor (JObj kvs) = Inr flag \<and> truthy flag
                \<and> is_ask_type (JObj kvs) = Inr True \<longrightarrow>
              thread_decide c st (Aware n) tp =
                Inr (Some \<lparr>should_reply = True, message = Some (autoresponse_message st),
                           reason = ''ask message''\<rparr>)
              \<and> (autoresponse_message st \<noteq> [] \<longrightarrow>
                   process_thread c st th w =
                     (Inr (), [ListMessages tid, PostMessage tid (autoresponse_message st)],
                      snd (post_message c tid (autoresponse_message st) wa)))"
  proof (intro impI)
    assume h: "thread_id_of th = Inr tid \<and> truthy tid
                \<and> list_messages c tid w1 = (Inr tp, wa)
                \<and> get_or2 tp ''messages'' ''items'' = Inr (JArr ms)
                \<and> is_from_interlocutor (JObj kvs) = Inr flag \<and> truthy flag
                \<and> is_ask_type (JObj kvs) = Inr True"
    then have dec: "thread_decide c st (Aware n) tp =
                Inr (Some \<lparr>should_reply = True, message = Some (autoresponse_message st),
                           reason = ''ask message''\<rparr>)"
      using td tl by simp
    have "autoresponse_message st \<noteq> [] \<longrightarrow>
                   process_thread c st th w =
                     (Inr (), [ListMessages tid, PostMessage tid (autoresponse_message st)],
                      snd (post_message c tid (autoresponse_message st) wa))"
      using h dec now
      by (simp add: process_thread_def bind_exn_simps reply_text_def split: prod.splits)
    with dec show "thread_decide c st (Aware n) tp =
                Inr (Some \<lparr>should_reply = True, message = Some (autoresponse_message st),
                           reason = ''ask message''\<rparr>)
              \<and> (autoresponse_message st \<noteq> [] \<longrightarrow>
                   process_thread c st th w =
                     (Inr (), [ListMessages tid, PostMessage tid (autoresponse_message st)],
                      snd (post_message c tid (autoresponse_message st) wa)))"
      by simp
  qed
  have iss: "issue_gate issue = Inr (Some iid)
                \<and> list_issue_messages c iid w1 = (Inr ip, wb)
                \<and> get_or1 ip ''chat'' = Inr (JArr ms) \<and> length ms \<le> 2
                \<and> author_role (JObj kvs) = Inr (JStr ''BUYER'') \<longrightarrow>
              issue_decide c st (Aware n) ip =
                Inr (Some \<lparr>should_reply = True, message = Some (autoresponse_issue st),
                           reason = ''issue''\<rparr>)
              \<and> (autoresponse_issue st \<noteq> [] \<longrightarrow>
                   process_issue c st issue w =
                     (Inr (), [ListIssueMessages iid, PostIssueMessage iid (autoresponse_issue st)],
                      snd (post_issue_message c iid (autoresponse_issue st) wb)))"
  proof (intro impI)
    assume h: "issue_gate issue = Inr (Some iid)
                \<and> list_issue_messages c iid w1 = (Inr ip, wb)
                \<and> get_or1 ip ''chat'' = Inr (JArr ms) \<and> length ms \<le> 2
                \<and> author_role (JObj kvs) = Inr (JStr ''BUYER'')"
    then have dec: "issue_decide c st (Aware n) ip =
                Inr (Some \<lparr>should_reply = True, message = Some (autoresponse_issue st),
                           reason = ''issue''\<rparr>)"
      using idc il by simp
    have "autoresponse_issue st \<noteq> [] \<longrightarrow>
                   process_issue c st issue w =
                     (Inr (), [ListIssueMessages iid, PostIssueMessage iid (autoresponse_issue st)],
                      snd (post_issue_message c iid (autoresponse_issue st) wb))"
      using h dec now
      by (simp add: process_issue_def bind_exn_simps reply_text_def split: prod.splits)
    with dec show "issue_decide c st (Aware n) ip =
                Inr (Some \<lparr>should_reply = True, message = Some (autoresponse_issue st),
                           reason = ''issue''\<rparr>)
              \<and> (autoresponse_issue st \<noteq> [] \<longrightarrow>
                   process_issue c st issue w =
                     (Inr (), [ListIssueMessages iid, PostIssueMessage iid (autoresponse_issue st)],
                      snd (post_issue_message c iid (autoresponse_issue st) wb)))"
      by simp
  qed
  show ?thesis
    using srt_eq lst k thread iss by blast
qed

theorem created_only_timestamp_witness:
  "sort_messages old_market (JArr old_messages)
     = Inr [chat_msg ''2019-12-31T00:00:00Z'' ''SELLER'', JObj old_question]
   \<and> ts_key (JObj old_question) = ''2020-01-01T00:00:00Z''
   \<and> process_thread old_market demo_settings (JObj [(''id'', JStr ''t1'')]) demo_now
     = (Inr (), [ListMessages (JStr ''t1''),
                 PostMessage (JStr ''t1'') ''Thank you for your message.''], demo_now)
   \<and> process_issue old_market demo_settings (demo_issue ''DISPUTE_ONGOING'') demo_now
     = (Inr (), [ListIssueMessages (JStr ''i1''),
                 PostIssueMessage (JStr ''i1'') ''Thank you for reporting the problem.''],
        demo_now)"
proof -
  let ?other = "chat_msg ''2019-12-31T00:00:00Z'' ''SELLER''"
  let ?s = "''2020-01-01T00:00:00Z''"
  let ?th = "JObj [(''id'', JStr ''t1'')]"
  let ?tp = "JObj [(''messages'', JArr old_messages)]"
  let ?ip = "JObj [(''chat'', JArr old_messages)]"
  have 1: "map_exn ts old_messages = Inr [JStr ?s, JStr ''2019-12-31T00:00:00Z'']"
    by (simp add: old_messages_def old_question_def chat_msg_def ts_def bind_exn_simps)
  have 2: "list_all is_JStr [JStr ?s, JStr ''2019-12-31T00:00:00Z'']"
    by simp
  have 3: "JObj old_question \<in> set old_messages"
    by (simp add: old_messages_def)
  have 4: "map_of old_question ''createdAt'' = None"
    by (simp add: old_question_def)
  have 5: "map_of old_question ''created'' = Some (JStr ?s)
           \<or> (map_of old_question ''created'' = None
               \<and> map_of old_question ''creationDate'' = Some (JStr ?s))"
    by (simp add: old_question_def)
  have 6: "?s \<noteq> []" by simp
  have lt: "ts_key ?other < ?s"
    by code_simp
  have 7: "\<forall>m \<in> set old_messages. m \<noteq> JObj old_question \<longrightarrow> ts_key m < ?s"
    using lt by (simp add: old_messages_def)
  have 8: "utcnow old_market demo_now = (demo_now, demo_now)"
    by (simp add: old_market_def demo_env_def)
  have t: "thread_id_of ?th = Inr (JStr ''t1'') \<and> truthy (JStr ''t1'')
           \<and> list_messages old_market (JStr ''t1'') demo_now = (Inr ?tp, demo_now)
           \<and> get_or2 ?tp ''messages'' ''items'' = Inr (JArr old_messages)
           \<and> is_from_interlocutor (JObj old_question) = Inr (JBool True) \<and> truthy (JBool True)
           \<and> is_ask_type (JObj old_question) = Inr True"
    by (simp add: thread_id_of_def old_market_def demo_env_def old_thread_payload_def
          get_or2_def old_messages_def old_question_def is_from_interlocutor_def
          is_ask_type_def bind_exn_simps)
  have i: "issue_gate (demo_issue ''DISPUTE_ONGOING'') = Inr (Some (JStr ''i1''))
           \<and> list_issue_messages old_market (JStr ''i1'') demo_now = (Inr ?ip, demo_now)
           \<and> get_or1 ?ip ''chat'' = Inr (JArr old_messages) \<and> length old_messages \<le> 2
           \<and> author_role (JObj old_question) = Inr (JStr ''BUYER'')"
    by (simp add: issue_gate_def issue_status_def demo_issue_def old_market_def demo_env_def
          old_chat_payload_def get_or1_def old_messages_def old_question_def author_role_def
          bind_exn_simps)
  have tmpl: "autoresponse_message demo_settings = ''Thank you for your message.''"
    "autoresponse_issue demo_settings = ''Thank you for reporting the problem.''"
    by (simp_all add: demo_settings_def)
  have posts: "snd (post_message old_market (JStr ''t1'') ''Thank you for your message.'' demo_now)
                 = demo_now"
    "snd (post_issue_message old_market (JStr ''i1'') ''Thank you for reporting the problem.''
            demo_now) = demo_now"
    by (simp_all add: old_market_def demo_env_def)
  have srt: "sort_messages old_market (JArr old_messages) = Inr [?other, JObj old_question]"
    by code_simp
  from created_only_timestamp_never_stale [OF 1 2 3 4 5 6 7 8,
      where th = "?th" and tid = "JStr ''t1''" and tp = "?tp" and wa = demo_now
        and flag = "JBool True" and st = demo_settings
        and issue = "demo_issue ''DISPUTE_ONGOING''" and iid = "JStr ''i1''" and ip = "?ip"
        and wb = demo_now]
  have "ts_key (JObj old_question) = ?s
     \<and> process_thread old_market demo_settings ?th demo_now
       = (Inr (), [ListMessages (JStr ''t1''),
                   PostMessage (JStr ''t1'') ''Thank you for your message.''], demo_now)
     \<and> process_issue old_market demo_settings (demo_issue ''DISPUTE_ONGOING'') demo_now
       = (Inr (), [ListIssueMessages (JStr ''i1''),
                   PostIssueMessage (JStr ''i1'') ''Thank you for reporting the problem.''],
          demo_now)"
    using t i tmpl posts by auto
  with srt show ?thesis by simp
qed

end
